theory Spec2Isabelle
  imports Main "HOL-Library.AList"
begin

section \<open>Data model of server.js\<close>

text \<open>
  The server keeps one global object, \<^verbatim>\<open>activeUsers\<close> (server.js line 78), mapping a socket
  id to \<^verbatim>\<open>{ username, roomId }\<close>. A JavaScript object with string keys that are not array
  indices enumerates its keys in insertion order, assignment to an existing key keeps its
  position and \<^verbatim>\<open>delete\<close> removes it: the object is an association list updated with
  \<open>AList.update\<close> and \<open>AList.delete\<close>. Socket ids are connection identifiers handed out by
  the transport; they and all payload fields of the protocol are strings. A string is a list
  of code units below 256 (\<open>char\<close>); code units above that are outside the model.
\<close>

type_synonym sid = string

record session =
  username :: string
  roomId :: string

text \<open>Payloads the server never looks into (call type, offer, answer, candidate).\<close>

datatype jsval =
    JNull
  | JBool bool
  | JNum int
  | JStr string
  | JArr "jsval list"
  | JObj "(string \<times> jsval) list"

text \<open>
  What a client's socket can make the server run: the \<^verbatim>\<open>connection\<close> callback of line 81,
  and one constructor per \<^verbatim>\<open>socket.on(...)\<close> handler of lines 85 to 340, with the fields
  the handler destructures from \<^verbatim>\<open>data\<close>.
\<close>

datatype client_event =
    On_connection
  | On_join_room string string
  | On_send_message string
  | On_send_image string
  | On_get_room_users
  | On_call_user sid jsval
  | On_accept_call sid
  | On_reject_call sid
  | On_end_call sid
  | On_webrtc_offer sid jsval
  | On_webrtc_answer sid jsval
  | On_webrtc_ice_candidate sid jsval
  | On_disconnect

text \<open>What the server emits, one constructor per event name, with the fields of the object sent.\<close>

datatype server_event =
    Emit_join_error string
  | Emit_joined_room string string
  | Emit_user_joined string string
  | Emit_room_users_list "(sid \<times> string) list"
  | Emit_error string
  | Emit_receive_message string string string
  | Emit_receive_image string string string
  | Emit_call_error string
  | Emit_incoming_call sid string jsval
  | Emit_call_accepted sid string
  | Emit_call_rejected sid string
  | Emit_call_ended sid string
  | Emit_webrtc_offer sid jsval
  | Emit_webrtc_answer sid jsval
  | Emit_webrtc_ice_candidate sid jsval
  | Emit_user_left string string

text \<open>One delivery: the socket that receives an event, and the event.\<close>

type_synonym delivery = "sid \<times> server_event"

text \<open>
  The state the handlers read and write: \<^verbatim>\<open>activeUsers\<close>, and the rooms of Socket.IO, which
  \<^verbatim>\<open>socket.join\<close>, \<^verbatim>\<open>socket.to\<close> and \<^verbatim>\<open>io.to\<close> work on. \<open>sockets\<close> lists every connected
  socket with the rooms it is in.
\<close>

record server_state =
  activeUsers :: "(sid \<times> session) list"
  sockets :: "(sid \<times> string list) list"

definition init :: server_state where
  "init = \<lparr>activeUsers = [], sockets = []\<rparr>"

section \<open>Socket.IO 4, as far as server.js uses it\<close>

text \<open>
  Socket.IO is a dependency, not code of the repository; the repository's deployment guide
  refers to version 4. What that version does: a socket is in the room named by its own id
  from the moment it connects; \<^verbatim>\<open>socket.join(r)\<close> adds the socket to room \<open>r\<close> (and never
  removes it from another); \<^verbatim>\<open>socket.emit\<close> sends to the socket itself; \<^verbatim>\<open>io.to(r).emit\<close>
  sends to every socket in room \<open>r\<close>; \<^verbatim>\<open>socket.to(r).emit\<close> sends to every socket in room \<open>r\<close>
  that is not in the room named by the sender's id: this leaves out the sender, and with it
  every socket that joined a room of that name; when a socket closes it leaves all its rooms
  before its \<^verbatim>\<open>disconnect\<close> handler runs, while the sockets that joined the room named by its
  id stay in that room.
\<close>

definition connected :: "server_state \<Rightarrow> sid \<Rightarrow> bool" where
  "connected s c \<longleftrightarrow> c \<in> set (map fst (sockets s))"

definition socket_open :: "server_state \<Rightarrow> sid \<Rightarrow> server_state" where
  "socket_open s c = s\<lparr>sockets := sockets s @ [(c, [c])]\<rparr>"

definition socket_close :: "server_state \<Rightarrow> sid \<Rightarrow> server_state" where
  "socket_close s c = s\<lparr>sockets := filter (\<lambda>p. fst p \<noteq> c) (sockets s)\<rparr>"

definition socket_join :: "server_state \<Rightarrow> sid \<Rightarrow> string \<Rightarrow> server_state" where
  "socket_join s c r =
     s\<lparr>sockets := map (\<lambda>p. if fst p = c then (fst p, List.insert r (snd p)) else p) (sockets s)\<rparr>"

definition in_room :: "server_state \<Rightarrow> string \<Rightarrow> sid list" where
  "in_room s r = map fst (filter (\<lambda>p. r \<in> set (snd p)) (sockets s))"

definition socket_emit :: "sid \<Rightarrow> server_event \<Rightarrow> delivery list" where
  "socket_emit c e = [(c, e)]"

definition io_to_emit :: "server_state \<Rightarrow> string \<Rightarrow> server_event \<Rightarrow> delivery list" where
  "io_to_emit s r e = map (\<lambda>x. (x, e)) (in_room s r)"

definition socket_to_emit :: "server_state \<Rightarrow> sid \<Rightarrow> string \<Rightarrow> server_event \<Rightarrow> delivery list" where
  "socket_to_emit s c r e =
     map (\<lambda>x. (x, e)) (filter (\<lambda>x. x \<notin> set (in_room s c)) (in_room s r))"

section \<open>JavaScript helpers\<close>

text \<open>
  \<^verbatim>\<open>activeUsers[k]\<close>. For a key that is not an own property the lookup falls through to
  \<^verbatim>\<open>Object.prototype\<close>, whose twelve properties are functions or objects, hence truthy, and
  have no \<^verbatim>\<open>roomId\<close>. The handlers look up \<^verbatim>\<open>socket.id\<close>, which is never such a name, and a
  key the client chose in three places: line 211, where the value's \<^verbatim>\<open>roomId\<close> is compared
  with the caller's, so that an inherited value fails the test as a missing entry does, and
  lines 231 and 250, which test nothing but truthiness (\<open>truthy_entry\<close>).
\<close>

definition lookup :: "server_state \<Rightarrow> sid \<Rightarrow> session option" where
  "lookup s c = map_of (activeUsers s) c"

definition object_prototype_keys :: "string list" where
  "object_prototype_keys =
     [''constructor'', ''__proto__'', ''hasOwnProperty'', ''isPrototypeOf'',
      ''propertyIsEnumerable'', ''toLocaleString'', ''toString'', ''valueOf'',
      ''__defineGetter__'', ''__defineSetter__'', ''__lookupGetter__'', ''__lookupSetter__'']"

definition truthy_entry :: "server_state \<Rightarrow> string \<Rightarrow> bool" where
  "truthy_entry s k \<longleftrightarrow> lookup s k \<noteq> None \<or> k \<in> set object_prototype_keys"

text \<open>
  \<^verbatim>\<open>String.prototype.trim\<close>: the white space and line terminators of ECMAScript that are
  code units below 256 are TAB, LF, VT, FF, CR, SPACE and NBSP.
\<close>

definition js_whitespace :: "char \<Rightarrow> bool" where
  "js_whitespace ch \<longleftrightarrow>
     ch \<in> set [CHR 0x09, CHR 0x0A, CHR 0x0B, CHR 0x0C, CHR 0x0D, CHR 0x20, CHR 0xA0]"

definition js_trim :: "string \<Rightarrow> string" where
  "js_trim t = rev (dropWhile js_whitespace (rev (dropWhile js_whitespace t)))"

section \<open>The handlers of server.js\<close>

text \<open>
  Each handler takes the state and the id of the socket it was registered for, and returns the
  new state with the deliveries it caused, in order. \<^verbatim>\<open>console.log\<close> reaches no client and is
  left out. \<open>now\<close> stands for \<^verbatim>\<open>new Date().toLocaleTimeString()\<close> at the time of the call.
\<close>

text \<open>The loop of lines 110 to 118 and of lines 325 to 333.\<close>

definition roomUsers :: "server_state \<Rightarrow> string \<Rightarrow> (sid \<times> string) list" where
  "roomUsers s r =
     concat (map (\<lambda>k. case lookup s k of
                         None \<Rightarrow> []
                       | Some u \<Rightarrow> if roomId u = r then [(k, username u)] else [])
                 (map fst (activeUsers s)))"

text \<open>The loop of lines 188 to 196, which skips the asking socket.\<close>

definition roomUsers_except :: "server_state \<Rightarrow> string \<Rightarrow> sid \<Rightarrow> (sid \<times> string) list" where
  "roomUsers_except s r c =
     concat (map (\<lambda>k. case lookup s k of
                         None \<Rightarrow> []
                       | Some u \<Rightarrow> if roomId u = r \<and> k \<noteq> c then [(k, username u)] else [])
                 (map fst (activeUsers s)))"

text \<open>\<^verbatim>\<open>join-room\<close>, lines 85 to 122.\<close>

definition join_room :: "server_state \<Rightarrow> sid \<Rightarrow> string \<Rightarrow> string \<Rightarrow> server_state \<times> delivery list" where
  "join_room s c uname rid =
     (if uname = [] \<or> rid = [] then
        (s, socket_emit c (Emit_join_error ''Username and Room ID are required!''))
      else
        let s1 = s\<lparr>activeUsers := AList.update c \<lparr>username = uname, roomId = rid\<rparr> (activeUsers s)\<rparr>;
            s2 = socket_join s1 c rid
        in (s2,
            socket_emit c (Emit_joined_room uname rid)
            @ socket_to_emit s2 c rid (Emit_user_joined uname (uname @ '' joined the room''))
            @ io_to_emit s2 rid (Emit_room_users_list (roomUsers s2 rid))))"

text \<open>\<^verbatim>\<open>send-message\<close>, lines 125 to 150, and \<^verbatim>\<open>send-image\<close>, lines 153 to 178.\<close>

definition send_message :: "server_state \<Rightarrow> sid \<Rightarrow> string \<Rightarrow> string \<Rightarrow> server_state \<times> delivery list" where
  "send_message s c now message =
     (case lookup s c of
        None \<Rightarrow> (s, socket_emit c (Emit_error ''You must join a room first!''))
      | Some user \<Rightarrow>
          if message = [] \<or> js_trim message = [] then (s, [])
          else (s, io_to_emit s (roomId user)
                     (Emit_receive_message (username user) (js_trim message) now)))"

definition send_image :: "server_state \<Rightarrow> sid \<Rightarrow> string \<Rightarrow> string \<Rightarrow> server_state \<times> delivery list" where
  "send_image s c now imageUrl =
     (case lookup s c of
        None \<Rightarrow> (s, socket_emit c (Emit_error ''You must join a room first!''))
      | Some user \<Rightarrow>
          if imageUrl = [] then (s, [])
          else (s, io_to_emit s (roomId user)
                     (Emit_receive_image (username user) imageUrl now)))"

text \<open>\<^verbatim>\<open>get-room-users\<close>, lines 181 to 199.\<close>

definition get_room_users :: "server_state \<Rightarrow> sid \<Rightarrow> server_state \<times> delivery list" where
  "get_room_users s c =
     (case lookup s c of
        None \<Rightarrow> (s, [])
      | Some user \<Rightarrow>
          (s, socket_emit c (Emit_room_users_list (roomUsers_except s (roomId user) c))))"

text \<open>
  \<^verbatim>\<open>call-user\<close>, lines 202 to 225; \<^verbatim>\<open>accept-call\<close>, lines 228 to 244; \<^verbatim>\<open>reject-call\<close>, lines
  247 to 263; \<^verbatim>\<open>end-call\<close>, lines 266 to 281.
\<close>

definition call_user :: "server_state \<Rightarrow> sid \<Rightarrow> sid \<Rightarrow> jsval \<Rightarrow> server_state \<times> delivery list" where
  "call_user s c targetSocketId callType =
     (case lookup s c of
        None \<Rightarrow> (s, [])
      | Some caller \<Rightarrow>
          (case lookup s targetSocketId of
             None \<Rightarrow> (s, socket_emit c (Emit_call_error ''User not found in room''))
           | Some target \<Rightarrow>
               if roomId target \<noteq> roomId caller then
                 (s, socket_emit c (Emit_call_error ''User not found in room''))
               else
                 (s, socket_to_emit s c targetSocketId
                       (Emit_incoming_call c (username caller) callType))))"

definition accept_call :: "server_state \<Rightarrow> sid \<Rightarrow> sid \<Rightarrow> server_state \<times> delivery list" where
  "accept_call s c callerSocketId =
     (case lookup s c of
        None \<Rightarrow> (s, [])
      | Some user \<Rightarrow>
          if \<not> truthy_entry s callerSocketId then (s, [])
          else (s, socket_to_emit s c callerSocketId (Emit_call_accepted c (username user))))"

definition reject_call :: "server_state \<Rightarrow> sid \<Rightarrow> sid \<Rightarrow> server_state \<times> delivery list" where
  "reject_call s c callerSocketId =
     (case lookup s c of
        None \<Rightarrow> (s, [])
      | Some user \<Rightarrow>
          if \<not> truthy_entry s callerSocketId then (s, [])
          else (s, socket_to_emit s c callerSocketId (Emit_call_rejected c (username user))))"

definition end_call :: "server_state \<Rightarrow> sid \<Rightarrow> sid \<Rightarrow> server_state \<times> delivery list" where
  "end_call s c targetSocketId =
     (case lookup s c of
        None \<Rightarrow> (s, [])
      | Some user \<Rightarrow>
          (s, socket_to_emit s c targetSocketId (Emit_call_ended c (username user))))"

text \<open>
  \<^verbatim>\<open>webrtc-offer\<close>, \<^verbatim>\<open>webrtc-answer\<close> and \<^verbatim>\<open>webrtc-ice-candidate\<close>, lines 284 to 308: no
  lookup, no test.
\<close>

definition webrtc_offer :: "server_state \<Rightarrow> sid \<Rightarrow> sid \<Rightarrow> jsval \<Rightarrow> server_state \<times> delivery list" where
  "webrtc_offer s c targetSocketId offer =
     (s, socket_to_emit s c targetSocketId (Emit_webrtc_offer c offer))"

definition webrtc_answer :: "server_state \<Rightarrow> sid \<Rightarrow> sid \<Rightarrow> jsval \<Rightarrow> server_state \<times> delivery list" where
  "webrtc_answer s c targetSocketId answer =
     (s, socket_to_emit s c targetSocketId (Emit_webrtc_answer c answer))"

definition webrtc_ice_candidate :: "server_state \<Rightarrow> sid \<Rightarrow> sid \<Rightarrow> jsval \<Rightarrow> server_state \<times> delivery list" where
  "webrtc_ice_candidate s c targetSocketId candidate =
     (s, socket_to_emit s c targetSocketId (Emit_webrtc_ice_candidate c candidate))"

text \<open>
  The \<^verbatim>\<open>disconnect\<close> handler, lines 311 to 340. It runs on the state in which the socket has
  already left its rooms (see \<open>step\<close>).
\<close>

definition disconnect :: "server_state \<Rightarrow> sid \<Rightarrow> server_state \<times> delivery list" where
  "disconnect s c =
     (case lookup s c of
        None \<Rightarrow> (s, [])
      | Some user \<Rightarrow>
          let left = socket_to_emit s c (roomId user)
                       (Emit_user_left (username user) (username user @ '' left the room''));
              s1 = s\<lparr>activeUsers := AList.delete c (activeUsers s)\<rparr>
          in (s1, left @ io_to_emit s1 (roomId user)
                            (Emit_room_users_list (roomUsers s1 (roomId user)))))"

text \<open>
  One event of socket \<open>c\<close>. The handlers exist only between the socket's connection and its
  disconnection, so an event of a socket that is not connected runs nothing, and neither does
  a second connection of a connected id.
\<close>

fun dispatch :: "server_state \<Rightarrow> sid \<Rightarrow> string \<Rightarrow> client_event \<Rightarrow> server_state \<times> delivery list" where
  "dispatch s c now On_connection = (s, [])"
| "dispatch s c now (On_join_room uname rid) = join_room s c uname rid"
| "dispatch s c now (On_send_message message) = send_message s c now message"
| "dispatch s c now (On_send_image imageUrl) = send_image s c now imageUrl"
| "dispatch s c now On_get_room_users = get_room_users s c"
| "dispatch s c now (On_call_user t callType) = call_user s c t callType"
| "dispatch s c now (On_accept_call t) = accept_call s c t"
| "dispatch s c now (On_reject_call t) = reject_call s c t"
| "dispatch s c now (On_end_call t) = end_call s c t"
| "dispatch s c now (On_webrtc_offer t offer) = webrtc_offer s c t offer"
| "dispatch s c now (On_webrtc_answer t answer) = webrtc_answer s c t answer"
| "dispatch s c now (On_webrtc_ice_candidate t candidate) = webrtc_ice_candidate s c t candidate"
| "dispatch s c now On_disconnect = disconnect (socket_close s c) c"

definition step :: "server_state \<Rightarrow> sid \<Rightarrow> string \<Rightarrow> client_event \<Rightarrow> server_state \<times> delivery list" where
  "step s c now ev =
     (if connected s c then dispatch s c now ev
      else if ev = On_connection then (socket_open s c, [])
      else (s, []))"

text \<open>A run of the server: the events in the order the dispatcher takes them, each with its
  socket and its clock reading; the deliveries of all of them, in order.\<close>

fun exec :: "server_state \<Rightarrow> (sid \<times> string \<times> client_event) list \<Rightarrow> server_state \<times> delivery list" where
  "exec s [] = (s, [])"
| "exec s ((c, now, ev) # evs) =
     (let (s1, out1) = step s c now ev;
          (s2, out2) = exec s1 evs
      in (s2, out1 @ out2))"

text \<open>
  What every state the server reaches satisfies: the keys of \<^verbatim>\<open>activeUsers\<close> are distinct,
  every connected socket is in the room of its own id, and every socket with an entry in
  \<^verbatim>\<open>activeUsers\<close> is connected and in the Socket.IO room its entry names.
\<close>

definition state_ok :: "server_state \<Rightarrow> bool" where
  "state_ok s \<longleftrightarrow>
     distinct (map fst (activeUsers s)) \<and>
     list_all (\<lambda>p. fst p \<in> set (snd p)) (sockets s) \<and>
     list_all (\<lambda>p. fst p \<in> set (in_room s (fst p)) \<and> fst p \<in> set (in_room s (roomId (snd p))))
              (activeUsers s)"

text \<open>
  The members of room \<open>r\<close> as the registry has them: the sockets whose entry in
  \<^verbatim>\<open>activeUsers\<close> names \<open>r\<close>.
\<close>

definition membersOf :: "server_state \<Rightarrow> string \<Rightarrow> sid set" where
  "membersOf s r = {k \<in> set (map fst (activeUsers s)). map_option roomId (lookup s k) = Some r}"

text \<open>What the clients see of the membership lists: who was sent which list, in order.\<close>

definition room_users_lists :: "delivery list \<Rightarrow> (sid \<times> (sid \<times> string) list) list" where
  "room_users_lists out =
     concat (map (\<lambda>d. case snd d of Emit_room_users_list l \<Rightarrow> [(fst d, l)] | _ \<Rightarrow> []) out)"

section \<open>Runs used as examples\<close>

text \<open>
  Four sockets connect; A and B join room R1 as alice and bob, D joins room R2 as dave, and C
  stays connected without joining.
\<close>

definition demo_trace :: "(sid \<times> string \<times> client_event) list" where
  "demo_trace =
     [(''A'', ''10:00:01'', On_connection),
      (''B'', ''10:00:02'', On_connection),
      (''C'', ''10:00:03'', On_connection),
      (''D'', ''10:00:04'', On_connection),
      (''A'', ''10:00:05'', On_join_room ''alice'' ''R1''),
      (''B'', ''10:00:06'', On_join_room ''bob'' ''R1''),
      (''D'', ''10:00:07'', On_join_room ''dave'' ''R2'')]"

definition demo :: server_state where
  "demo =
     \<lparr>activeUsers = [(''A'', \<lparr>username = ''alice'', roomId = ''R1''\<rparr>),
                     (''B'', \<lparr>username = ''bob'', roomId = ''R1''\<rparr>),
                     (''D'', \<lparr>username = ''dave'', roomId = ''R2''\<rparr>)],
      sockets = [(''A'', [''R1'', ''A'']), (''B'', [''R1'', ''B'']), (''C'', [''C'']),
                 (''D'', [''R2'', ''D''])]\<rparr>"

text \<open>
  A call between two members of a room: A and B join R1, A calls B, B accepts, and they
  exchange an offer and an answer.
\<close>

definition midcall_trace :: "(sid \<times> string \<times> client_event) list" where
  "midcall_trace =
     [(''A'', ''10:00:01'', On_connection),
      (''B'', ''10:00:02'', On_connection),
      (''A'', ''10:00:03'', On_join_room ''alice'' ''R1''),
      (''B'', ''10:00:04'', On_join_room ''bob'' ''R1''),
      (''A'', ''10:00:05'', On_call_user ''B'' (JStr ''video'')),
      (''B'', ''10:00:06'', On_accept_call ''A''),
      (''A'', ''10:00:07'', On_webrtc_offer ''B'' (JStr ''offer-sdp'')),
      (''B'', ''10:00:08'', On_webrtc_answer ''A'' (JStr ''answer-sdp''))]"

definition midcall :: server_state where
  "midcall =
     \<lparr>activeUsers = [(''A'', \<lparr>username = ''alice'', roomId = ''R1''\<rparr>),
                     (''B'', \<lparr>username = ''bob'', roomId = ''R1''\<rparr>)],
      sockets = [(''A'', [''R1'', ''A'']), (''B'', [''R1'', ''B''])]\<rparr>"

text \<open>A socket that joins a second room: B joins R1, then R2, without disconnecting.\<close>

definition rejoin_trace :: "(sid \<times> string \<times> client_event) list" where
  "rejoin_trace =
     [(''A'', ''10:00:01'', On_connection),
      (''B'', ''10:00:02'', On_connection),
      (''A'', ''10:00:03'', On_join_room ''alice'' ''R1''),
      (''B'', ''10:00:04'', On_join_room ''bob'' ''R1''),
      (''B'', ''10:00:05'', On_join_room ''bob'' ''R2'')]"

definition rejoined :: server_state where
  "rejoined =
     \<lparr>activeUsers = [(''A'', \<lparr>username = ''alice'', roomId = ''R1''\<rparr>),
                     (''B'', \<lparr>username = ''bob'', roomId = ''R2''\<rparr>)],
      sockets = [(''A'', [''R1'', ''A'']), (''B'', [''R2'', ''R1'', ''B''])]\<rparr>"

text \<open>
  A room named after a socket: B joins R1, and C joins the room whose name is the id of B
  (the ids of the members of a room are sent to its members in \<^verbatim>\<open>room-users-list\<close>).
\<close>

definition collide_trace :: "(sid \<times> string \<times> client_event) list" where
  "collide_trace =
     [(''B'', ''10:00:01'', On_connection),
      (''C'', ''10:00:02'', On_connection),
      (''B'', ''10:00:03'', On_join_room ''bob'' ''R1''),
      (''C'', ''10:00:04'', On_join_room ''carol'' ''B'')]"

definition collide :: server_state where
  "collide =
     \<lparr>activeUsers = [(''B'', \<lparr>username = ''bob'', roomId = ''R1''\<rparr>),
                     (''C'', \<lparr>username = ''carol'', roomId = ''B''\<rparr>)],
      sockets = [(''B'', [''R1'', ''B'']), (''C'', [''B'', ''C''])]\<rparr>"

section \<open>Basic facts about the state\<close>

lemma lookup_sockets_upd [simp]: "lookup (s\<lparr>sockets := x\<rparr>) k = lookup s k"
  by (simp add: lookup_def)

lemma in_room_activeUsers_upd [simp]: "in_room (s\<lparr>activeUsers := x\<rparr>) r = in_room s r"
  by (simp add: in_room_def)

lemma set_in_room: "set (in_room s r) = {x. \<exists>rs. (x, rs) \<in> set (sockets s) \<and> r \<in> set rs}"
  by (auto simp: in_room_def image_iff)

lemma state_ok_init: "state_ok init"
  by (simp add: state_ok_def init_def)

lemma state_ok_lookupD:
  assumes "state_ok s" "lookup s c = Some u"
  shows "c \<in> set (in_room s c)" "c \<in> set (in_room s (roomId u))"
proof -
  from assms(2) have "(c, u) \<in> set (activeUsers s)"
    by (simp add: lookup_def map_of_SomeD)
  with assms(1) show "c \<in> set (in_room s c)" "c \<in> set (in_room s (roomId u))"
    by (auto simp: state_ok_def list_all_iff)
qed

lemma lookup_key: "lookup s k = Some u \<Longrightarrow> k \<in> set (map fst (activeUsers s))"
  by (metis lookup_def domI dom_map_of_conv_image_fst set_map)

lemma in_roomUsers_except:
  "(k, n) \<in> set (roomUsers_except s r c) \<longleftrightarrow>
     (\<exists>u. lookup s k = Some u \<and> roomId u = r \<and> k \<noteq> c \<and> n = username u)"
proof
  assume "(k, n) \<in> set (roomUsers_except s r c)"
  then obtain k' where "(k, n) \<in> set (case lookup s k' of None \<Rightarrow> []
      | Some u \<Rightarrow> if roomId u = r \<and> k' \<noteq> c then [(k', username u)] else [])"
    unfolding roomUsers_except_def by auto
  then show "\<exists>u. lookup s k = Some u \<and> roomId u = r \<and> k \<noteq> c \<and> n = username u"
    by (cases "lookup s k'") (auto split: if_splits)
next
  assume "\<exists>u. lookup s k = Some u \<and> roomId u = r \<and> k \<noteq> c \<and> n = username u"
  then obtain u where u: "lookup s k = Some u" "roomId u = r" "k \<noteq> c" "n = username u"
    by blast
  from u(1) have "k \<in> set (map fst (activeUsers s))" by (rule lookup_key)
  moreover from u have "(k, n) \<in> set (case lookup s k of None \<Rightarrow> []
      | Some u \<Rightarrow> if roomId u = r \<and> k \<noteq> c then [(k, username u)] else [])"
    by simp
  ultimately show "(k, n) \<in> set (roomUsers_except s r c)"
    unfolding roomUsers_except_def set_concat set_map by blast
qed

lemma in_roomUsers:
  "(k, n) \<in> set (roomUsers s r) \<longleftrightarrow> (\<exists>u. lookup s k = Some u \<and> roomId u = r \<and> n = username u)"
proof
  assume "(k, n) \<in> set (roomUsers s r)"
  then obtain k' where "(k, n) \<in> set (case lookup s k' of None \<Rightarrow> []
      | Some u \<Rightarrow> if roomId u = r then [(k', username u)] else [])"
    unfolding roomUsers_def by auto
  then show "\<exists>u. lookup s k = Some u \<and> roomId u = r \<and> n = username u"
    by (cases "lookup s k'") (auto split: if_splits)
next
  assume "\<exists>u. lookup s k = Some u \<and> roomId u = r \<and> n = username u"
  then obtain u where u: "lookup s k = Some u" "roomId u = r" "n = username u"
    by blast
  from u(1) have "k \<in> set (map fst (activeUsers s))" by (rule lookup_key)
  moreover from u have "(k, n) \<in> set (case lookup s k of None \<Rightarrow> []
      | Some u \<Rightarrow> if roomId u = r then [(k, username u)] else [])"
    by simp
  ultimately show "(k, n) \<in> set (roomUsers s r)"
    unfolding roomUsers_def set_concat set_map by blast
qed

lemma set_roomUsers:
  "set (roomUsers s r) = {(k, username u) | k u. lookup s k = Some u \<and> roomId u = r}"
  using in_roomUsers[of _ _ s r] by auto

lemma set_roomUsers_except:
  "set (roomUsers_except s r c) = {(k, username u) | k u. lookup s k = Some u \<and> roomId u = r \<and> k \<noteq> c}"
  using in_roomUsers_except[of _ _ s r c] by auto


lemma state_ok_iff:
  "state_ok s \<longleftrightarrow>
     distinct (map fst (activeUsers s)) \<and>
     (\<forall>x rs. (x, rs) \<in> set (sockets s) \<longrightarrow> x \<in> set rs) \<and>
     (\<forall>k u. lookup s k = Some u \<longrightarrow>
        k \<in> set (in_room s k) \<and> k \<in> set (in_room s (roomId u)))"
proof -
  have "distinct (map fst (activeUsers s)) \<Longrightarrow>
      (\<forall>k u. lookup s k = Some u \<longrightarrow> k \<in> set (in_room s k) \<and> k \<in> set (in_room s (roomId u)))
      = (\<forall>p \<in> set (activeUsers s). fst p \<in> set (in_room s (fst p)) \<and> fst p \<in> set (in_room s (roomId (snd p))))"
    by (auto simp: lookup_def)
  then show ?thesis
    by (auto simp: state_ok_def list_all_iff)
qed

lemma mem_in_room_join:
  "x \<in> set (in_room (socket_join s c r) q) \<longleftrightarrow>
     x \<in> set (in_room s q) \<or> (x = c \<and> q = r \<and> connected s c)"
proof -
  have "\<And>xs. x \<in> set (map fst (filter (\<lambda>p. q \<in> set (snd p))
            (map (\<lambda>p. if fst p = c then (fst p, List.insert r (snd p)) else p) xs))) \<longleftrightarrow>
        x \<in> set (map fst (filter (\<lambda>p. q \<in> set (snd p)) xs)) \<or> (x = c \<and> q = r \<and> c \<in> set (map fst xs))"
    subgoal for xs by (induction xs) auto
    done
  then show ?thesis
    by (simp add: in_room_def socket_join_def connected_def)
qed

lemma in_room_close: "in_room (socket_close s c) r = filter (\<lambda>x. x \<noteq> c) (in_room s r)"
  by (simp add: in_room_def socket_close_def filter_map comp_def conj_commute)

lemma set_in_room_open:
  "set (in_room (socket_open s c) r) = set (in_room s r) \<union> (if r = c then {c} else {})"
  by (auto simp: set_in_room socket_open_def)

lemma in_room_connected: "x \<in> set (in_room s r) \<Longrightarrow> connected s x"
  by (force simp: set_in_room connected_def)

lemma connected_self_room: "state_ok s \<Longrightarrow> connected s c \<Longrightarrow> c \<in> set (in_room s c)"
  by (force simp: state_ok_iff connected_def set_in_room)

lemma registered_connected: "state_ok s \<Longrightarrow> lookup s c = Some u \<Longrightarrow> connected s c"
  using state_ok_lookupD(1) in_room_connected by blast

lemma state_ok_open: "state_ok s \<Longrightarrow> state_ok (socket_open s c)"
  unfolding state_ok_iff
  by (simp add: set_in_room_open) (auto simp: socket_open_def lookup_def)

lemma state_ok_join:
  assumes "state_ok s" "connected s c" "roomId v = r"
  shows "state_ok (socket_join (s\<lparr>activeUsers := AList.update c v (activeUsers s)\<rparr>) c r)"
proof -
  let ?s1 = "s\<lparr>activeUsers := AList.update c v (activeUsers s)\<rparr>"
  let ?s2 = "socket_join ?s1 c r"
  have conn: "connected ?s1 c" using assms(2) by (simp add: connected_def)
  have self: "c \<in> set (in_room s c)" using assms(1,2) by (rule connected_self_room)
  have lk: "\<And>k. lookup ?s2 k = (if k = c then Some v else lookup s k)"
    by (simp add: socket_join_def lookup_def update_conv')
  have d: "distinct (map fst (activeUsers ?s2))"
    using assms(1) by (simp add: socket_join_def state_ok_iff distinct_update)
  have so: "\<forall>x rs. (x, rs) \<in> set (sockets ?s2) \<longrightarrow> x \<in> set rs"
    using assms(1) by (auto simp: socket_join_def state_ok_iff)
  have au: "\<forall>k u. lookup ?s2 k = Some u \<longrightarrow>
        k \<in> set (in_room ?s2 k) \<and> k \<in> set (in_room ?s2 (roomId u))"
    using assms(1,3) self conn
    by (auto simp: lk mem_in_room_join state_ok_iff split: if_splits)
  show ?thesis unfolding state_ok_iff using d so au by blast
qed

lemma state_ok_close_delete:
  assumes "state_ok s"
  shows "state_ok (socket_close s c\<lparr>activeUsers := AList.delete c (activeUsers s)\<rparr>)"
proof -
  let ?s1 = "socket_close s c\<lparr>activeUsers := AList.delete c (activeUsers s)\<rparr>"
  have lk: "\<And>k. lookup ?s1 k = (if k = c then None else lookup s k)"
    by (simp add: socket_close_def lookup_def delete_conv')
  have d: "distinct (map fst (activeUsers ?s1))"
    using assms(1) by (simp add: socket_close_def state_ok_iff distinct_delete)
  have so: "\<forall>x rs. (x, rs) \<in> set (sockets ?s1) \<longrightarrow> x \<in> set rs"
    using assms(1) by (auto simp: socket_close_def state_ok_iff)
  have au: "\<forall>k u. lookup ?s1 k = Some u \<longrightarrow>
        k \<in> set (in_room ?s1 k) \<and> k \<in> set (in_room ?s1 (roomId u))"
    using assms(1) by (auto simp: lk in_room_close state_ok_iff split: if_splits)
  show ?thesis unfolding state_ok_iff using d so au by blast
qed

lemma disconnect_close_state:
  "fst (disconnect (socket_close s c) c) = socket_close s c\<lparr>activeUsers := AList.delete c (activeUsers s)\<rparr>"
proof (cases "lookup s c")
  case None
  then have "c \<notin> fst ` set (activeUsers s)"
    by (simp add: lookup_def map_of_eq_None_iff)
  then have "AList.delete c (activeUsers s) = activeUsers s" by simp
  moreover have "socket_close s c\<lparr>activeUsers := activeUsers s\<rparr> = socket_close s c"
    by (simp add: socket_close_def)
  ultimately show ?thesis using None
    by (simp add: disconnect_def socket_close_def)
next
  case (Some u)
  then show ?thesis by (simp add: disconnect_def Let_def socket_close_def)
qed

lemma dispatch_state:
  "fst (dispatch s c now ev) =
     (case ev of
        On_join_room uname rid \<Rightarrow>
          if uname = [] \<or> rid = [] then s
          else socket_join (s\<lparr>activeUsers := AList.update c \<lparr>username = uname, roomId = rid\<rparr> (activeUsers s)\<rparr>) c rid
      | On_disconnect \<Rightarrow> socket_close s c\<lparr>activeUsers := AList.delete c (activeUsers s)\<rparr>
      | _ \<Rightarrow> s)"
  by (cases ev)
     (simp_all add: join_room_def send_message_def send_image_def get_room_users_def
        call_user_def accept_call_def reject_call_def end_call_def webrtc_offer_def
        webrtc_answer_def webrtc_ice_candidate_def disconnect_close_state Let_def
        split: option.splits)

lemma state_ok_step: "state_ok s \<Longrightarrow> state_ok (fst (step s c now ev))"
  unfolding step_def
  by (cases ev) (simp_all del: dispatch.simps add: dispatch_state state_ok_open state_ok_join state_ok_close_delete)

lemma state_ok_exec: "state_ok s \<Longrightarrow> state_ok (fst (exec s evs))"
proof (induction evs arbitrary: s)
  case Nil
  then show ?case by simp
next
  case (Cons e evs)
  obtain c now ev where e: "e = (c, now, ev)" by (cases e) auto
  have "state_ok (fst (step s c now ev))" using Cons.prems by (rule state_ok_step)
  then have "state_ok (fst (exec (fst (step s c now ev)) evs))" by (rule Cons.IH)
  then show ?case
    by (simp add: e case_prod_beta)
qed

lemma state_ok_reachable: "state_ok (fst (exec init evs))"
  using state_ok_init by (rule state_ok_exec)

lemmas handler_defs = join_room_def send_message_def send_image_def get_room_users_def
  call_user_def accept_call_def reject_call_def end_call_def webrtc_offer_def
  webrtc_answer_def webrtc_ice_candidate_def disconnect_def

lemmas emit_defs = socket_emit_def io_to_emit_def socket_to_emit_def

lemmas eval_defs = step_def connected_def lookup_def in_room_def socket_open_def
  socket_close_def socket_join_def roomUsers_def roomUsers_except_def truthy_entry_def

lemma demo_reached: "fst (exec init demo_trace) = demo"
  by code_simp

lemma state_ok_demo: "state_ok demo"
  by (simp add: state_ok_def demo_def in_room_def)

lemma membersOf_iff: "k \<in> membersOf s r \<longleftrightarrow> (\<exists>u. lookup s k = Some u \<and> roomId u = r)"
  using lookup_key[of s k] by (auto simp: membersOf_def)

lemma js_trim_Nil [simp]: "js_trim [] = []"
  by (simp add: js_trim_def)

lemma step_connected: "connected s c \<Longrightarrow> step s c now ev = dispatch s c now ev"
  by (simp add: step_def)

lemma lookup_close [simp]: "lookup (socket_close s c) k = lookup s k"
  by (simp add: socket_close_def)

lemma activeUsers_close [simp]: "activeUsers (socket_close s c) = activeUsers s"
  by (simp add: socket_close_def)

lemma socket_to_emit_activeUsers_upd [simp]:
  "socket_to_emit (s\<lparr>activeUsers := x\<rparr>) c r e = socket_to_emit s c r e"
  by (simp add: socket_to_emit_def)

lemma step_disconnect_registered:
  assumes "connected s c" "lookup s c = Some u"
  shows "step s c now On_disconnect =
     (socket_close s c\<lparr>activeUsers := AList.delete c (activeUsers s)\<rparr>,
      socket_to_emit (socket_close s c\<lparr>activeUsers := AList.delete c (activeUsers s)\<rparr>) c (roomId u)
        (Emit_user_left (username u) (username u @ '' left the room''))
      @ io_to_emit (socket_close s c\<lparr>activeUsers := AList.delete c (activeUsers s)\<rparr>) (roomId u)
          (Emit_room_users_list
             (roomUsers (socket_close s c\<lparr>activeUsers := AList.delete c (activeUsers s)\<rparr>) (roomId u))))"
  using assms
  by (simp add: step_connected disconnect_def Let_def)

lemma step_join_valid:
  assumes "connected s c" "uname \<noteq> []" "rid \<noteq> []"
  shows "step s c now (On_join_room uname rid) =
     (socket_join (s\<lparr>activeUsers := AList.update c \<lparr>username = uname, roomId = rid\<rparr> (activeUsers s)\<rparr>) c rid,
      (c, Emit_joined_room uname rid)
      # socket_to_emit (socket_join (s\<lparr>activeUsers := AList.update c \<lparr>username = uname, roomId = rid\<rparr> (activeUsers s)\<rparr>) c rid) c rid
          (Emit_user_joined uname (uname @ '' joined the room''))
      @ io_to_emit (socket_join (s\<lparr>activeUsers := AList.update c \<lparr>username = uname, roomId = rid\<rparr> (activeUsers s)\<rparr>) c rid) rid
          (Emit_room_users_list
             (roomUsers (socket_join (s\<lparr>activeUsers := AList.update c \<lparr>username = uname, roomId = rid\<rparr> (activeUsers s)\<rparr>) c rid) rid)))"
  using assms
  by (simp add: step_connected join_room_def Let_def socket_emit_def)

lemma room_users_lists_io_to [simp]:
  "room_users_lists (io_to_emit s r (Emit_room_users_list l)) = map (\<lambda>x. (x, l)) (in_room s r)"
  by (simp add: io_to_emit_def room_users_lists_def comp_def)

lemma room_users_lists_socket_to_joined [simp]:
  "room_users_lists (socket_to_emit s c r (Emit_user_joined n m)) = []"
  by (simp add: socket_to_emit_def room_users_lists_def comp_def)

lemma room_users_lists_socket_to_left [simp]:
  "room_users_lists (socket_to_emit s c r (Emit_user_left n m)) = []"
  by (simp add: socket_to_emit_def room_users_lists_def comp_def)

lemma socket_to_emit_events: "snd ` set (socket_to_emit s c r e) \<subseteq> {e}"
  by (auto simp: socket_to_emit_def)

lemma socket_to_emit_recipients: "fst ` set (socket_to_emit s c r e) \<subseteq> set (in_room s r)"
  by (auto simp: socket_to_emit_def)

lemma socket_to_emit_alone:
  "set (in_room s c) = {c} \<Longrightarrow>
   socket_to_emit s c r e = map (\<lambda>x. (x, e)) (filter (\<lambda>x. x \<noteq> c) (in_room s r))"
  by (simp add: socket_to_emit_def)

lemma socket_to_emit_nobody:
  "set (in_room s c) = {} \<Longrightarrow> socket_to_emit s c r e = map (\<lambda>x. (x, e)) (in_room s r)"
  by (simp add: socket_to_emit_def)

lemma socket_to_emit_reaches:
  "t \<in> set (in_room s r) \<Longrightarrow> t \<notin> set (in_room s c) \<Longrightarrow> (t, e) \<in> set (socket_to_emit s c r e)"
  by (simp add: socket_to_emit_def)

lemma room_users_lists_append [simp]:
  "room_users_lists (xs @ ys) = room_users_lists xs @ room_users_lists ys"
  by (simp add: room_users_lists_def)

lemma room_users_lists_Cons [simp]:
  "room_users_lists ((x, e) # ds) =
     (case e of Emit_room_users_list l \<Rightarrow> [(x, l)] | _ \<Rightarrow> []) @ room_users_lists ds"
  by (cases e) (simp_all add: room_users_lists_def)

lemma room_users_lists_Nil [simp]: "room_users_lists [] = []"
  by (simp add: room_users_lists_def)

lemma room_users_lists_map_list [simp]:
  "room_users_lists (map (\<lambda>x. (x, Emit_room_users_list l)) xs) = map (\<lambda>x. (x, l)) xs"
  by (induction xs) simp_all

lemma room_users_lists_user_joined [simp]:
  "room_users_lists (map (\<lambda>x. (x, Emit_user_joined n m)) xs) = []"
  by (induction xs) simp_all

lemma room_users_lists_user_left [simp]:
  "room_users_lists (map (\<lambda>x. (x, Emit_user_left n m)) xs) = []"
  by (induction xs) simp_all

lemma fst_roomUsers: "fst ` set (roomUsers s r) = membersOf s r"
  by (auto simp: set_roomUsers membersOf_iff image_iff)

lemma fst_roomUsers_except: "fst ` set (roomUsers_except s r c) = membersOf s r - {c}"
  by (auto simp: set_roomUsers_except membersOf_iff image_iff)

lemma midcall_reached:
  "exec init midcall_trace =
     (midcall,
      [(''A'', Emit_joined_room ''alice'' ''R1''),
       (''A'', Emit_room_users_list [(''A'', ''alice'')]),
       (''B'', Emit_joined_room ''bob'' ''R1''),
       (''A'', Emit_user_joined ''bob'' ''bob joined the room''),
       (''A'', Emit_room_users_list [(''A'', ''alice''), (''B'', ''bob'')]),
       (''B'', Emit_room_users_list [(''A'', ''alice''), (''B'', ''bob'')]),
       (''B'', Emit_incoming_call ''A'' ''alice'' (JStr ''video'')),
       (''A'', Emit_call_accepted ''B'' ''bob''),
       (''B'', Emit_webrtc_offer ''A'' (JStr ''offer-sdp'')),
       (''A'', Emit_webrtc_answer ''B'' (JStr ''answer-sdp''))])"
  by code_simp

lemma rejoined_reached: "fst (exec init rejoin_trace) = rejoined"
  by code_simp

lemma collide_reached: "fst (exec init collide_trace) = collide"
  by code_simp

section \<open>The registry: register, lookup, remove\<close>

text \<open>
  Claim C4. For a connected socket \<open>c\<close>: after \<^verbatim>\<open>join-room\<close> with a non-empty name and room,
  the entry of \<open>c\<close> in \<^verbatim>\<open>activeUsers\<close> is that name and room; after \<^verbatim>\<open>disconnect\<close> there is
  no entry for \<open>c\<close>; the disconnection of a socket without an entry leaves \<^verbatim>\<open>activeUsers\<close> as
  it was and sends nothing; and running the \<^verbatim>\<open>disconnect\<close> handler a second time changes
  nothing and sends nothing.
\<close>

theorem registry_register_lookup_remove:
  "connected s c \<Longrightarrow>
   (uname \<noteq> [] \<and> rid \<noteq> [] \<longrightarrow>
      lookup (fst (step s c now (On_join_room uname rid))) c
        = Some \<lparr>username = uname, roomId = rid\<rparr>) \<and>
   lookup (fst (step s c now On_disconnect)) c = None \<and>
   (lookup s c = None \<longrightarrow>
      activeUsers (fst (step s c now On_disconnect)) = activeUsers s \<and>
      snd (step s c now On_disconnect) = []) \<and>
   disconnect (fst (disconnect s c)) c = (fst (disconnect s c), [])"
proof -
  assume conn: "connected s c"
  have j: "uname \<noteq> [] \<and> rid \<noteq> [] \<longrightarrow>
      lookup (fst (step s c now (On_join_room uname rid))) c
        = Some \<lparr>username = uname, roomId = rid\<rparr>"
    using conn by (simp add: step_connected join_room_def Let_def socket_join_def lookup_def update_conv')
  have d: "lookup (fst (step s c now On_disconnect)) c = None"
    using conn by (simp add: step_connected disconnect_close_state lookup_def delete_conv')
  have n: "lookup s c = None \<longrightarrow>
      activeUsers (fst (step s c now On_disconnect)) = activeUsers s \<and>
      snd (step s c now On_disconnect) = []"
    using conn by (simp add: step_connected disconnect_def socket_close_def lookup_def)
  have "lookup (fst (disconnect s c)) c = None"
    by (cases "lookup s c") (simp_all add: disconnect_def Let_def lookup_def delete_conv')
  then have i: "disconnect (fst (disconnect s c)) c = (fst (disconnect s c), [])"
    by (simp add: disconnect_def)
  from j d n i show ?thesis by blast
qed

theorem registry_register_lookup_remove_witness:
  "connected demo ''C'' \<and>
   lookup (fst (step demo ''C'' ''10:01'' (On_join_room ''carol'' ''R1''))) ''C''
     = Some \<lparr>username = ''carol'', roomId = ''R1''\<rparr> \<and>
   lookup (fst (step demo ''A'' ''10:01'' On_disconnect)) ''A'' = None \<and>
   lookup demo ''C'' = None \<and>
   activeUsers (fst (step demo ''C'' ''10:01'' On_disconnect)) = activeUsers demo \<and>
   disconnect (fst (disconnect demo ''A'')) ''A'' = (fst (disconnect demo ''A''), [])"
proof -
  have c: "connected demo ''C''" and a: "connected demo ''A''"
    by (simp_all add: connected_def demo_def)
  have n: "lookup demo ''C'' = None"
    by (simp add: lookup_def demo_def)
  show ?thesis
    using c n
      registry_register_lookup_remove [OF c, of "''carol''" "''R1''" "''10:01''"]
      registry_register_lookup_remove [OF a, of "''alice''" "''R1''" "''10:01''"]
    by simp
qed

section \<open>Disconnection\<close>

text \<open>
  The run \<open>midcall_trace\<close> sets up a call between A and B (B is sent \<^verbatim>\<open>incoming-call\<close>, A is
  sent \<^verbatim>\<open>call-accepted\<close>). When A then disconnects, B is sent \<^verbatim>\<open>user-left\<close> and
  \<^verbatim>\<open>room-users-list\<close> and nothing else: no \<^verbatim>\<open>call-ended\<close>.
\<close>

theorem disconnect_sends_no_call_ended:
  "fst (exec init midcall_trace) = midcall \<and>
   (''B'', Emit_incoming_call ''A'' ''alice'' (JStr ''video'')) \<in> set (snd (exec init midcall_trace)) \<and>
   (''A'', Emit_call_accepted ''B'' ''bob'') \<in> set (snd (exec init midcall_trace)) \<and>
   step midcall ''A'' ''10:00:09'' On_disconnect
     = (\<lparr>activeUsers = [(''B'', \<lparr>username = ''bob'', roomId = ''R1''\<rparr>)],
         sockets = [(''B'', [''R1'', ''B''])]\<rparr>,
        [(''B'', Emit_user_left ''alice'' ''alice left the room''),
         (''B'', Emit_room_users_list [(''B'', ''bob'')])]) \<and>
   (''B'', Emit_call_ended ''A'' ''alice'') \<notin> set (snd (step midcall ''A'' ''10:00:09'' On_disconnect))"
  by code_simp

text \<open>
  Claim C1, as the code has it. When a connected socket \<open>c\<close> with an entry in \<^verbatim>\<open>activeUsers\<close>
  disconnects, its entry is removed and it is no longer connected. The deliveries are those of
  \<^verbatim>\<open>socket.to(room).emit('user-left')\<close> followed by those of
  \<^verbatim>\<open>io.to(room).emit('room-users-list')\<close>, in that order, where \<open>room\<close> is the room of the
  removed entry. The list goes to every socket left in that room, hence to every remaining
  member of a state the server can reach; it is computed after the removal, names exactly the
  remaining members and does not name \<open>c\<close>. \<^verbatim>\<open>user-left\<close> goes to sockets left in that room
  only, and to all of them when no socket is in a room named after the id of \<open>c\<close>. Nobody
  is sent \<^verbatim>\<open>call-ended\<close>, and the server has no record of calls to clean up.
\<close>

theorem disconnect_sends_room_events_only:
  "connected s c \<Longrightarrow> lookup s c = Some u \<Longrightarrow>
   lookup (fst (step s c now On_disconnect)) c = None \<and>
   \<not> connected (fst (step s c now On_disconnect)) c \<and>
   snd (step s c now On_disconnect)
     = socket_to_emit (fst (step s c now On_disconnect)) c (roomId u)
         (Emit_user_left (username u) (username u @ '' left the room''))
       @ io_to_emit (fst (step s c now On_disconnect)) (roomId u)
           (Emit_room_users_list (roomUsers (fst (step s c now On_disconnect)) (roomId u))) \<and>
   map fst (io_to_emit (fst (step s c now On_disconnect)) (roomId u)
              (Emit_room_users_list (roomUsers (fst (step s c now On_disconnect)) (roomId u))))
     = in_room (fst (step s c now On_disconnect)) (roomId u) \<and>
   (state_ok s \<longrightarrow>
      membersOf (fst (step s c now On_disconnect)) (roomId u)
        \<subseteq> set (in_room (fst (step s c now On_disconnect)) (roomId u))) \<and>
   fst ` set (socket_to_emit (fst (step s c now On_disconnect)) c (roomId u)
                (Emit_user_left (username u) (username u @ '' left the room'')))
     \<subseteq> set (in_room (fst (step s c now On_disconnect)) (roomId u)) \<and>
   (set (in_room (fst (step s c now On_disconnect)) c) = {} \<longrightarrow>
      socket_to_emit (fst (step s c now On_disconnect)) c (roomId u)
          (Emit_user_left (username u) (username u @ '' left the room''))
        = map (\<lambda>x. (x, Emit_user_left (username u) (username u @ '' left the room'')))
              (in_room (fst (step s c now On_disconnect)) (roomId u))) \<and>
   fst ` set (roomUsers (fst (step s c now On_disconnect)) (roomId u))
     = membersOf (fst (step s c now On_disconnect)) (roomId u) \<and>
   c \<notin> membersOf (fst (step s c now On_disconnect)) (roomId u) \<and>
   (\<forall>x f n. (x, Emit_call_ended f n) \<notin> set (snd (step s c now On_disconnect)))"
proof -
  assume conn: "connected s c" and lu: "lookup s c = Some u"
  define s' where "s' = fst (step s c now On_disconnect)"
  define left where "left = Emit_user_left (username u) (username u @ '' left the room'')"
  have st: "step s c now On_disconnect =
     (s', socket_to_emit s' c (roomId u) left
          @ io_to_emit s' (roomId u) (Emit_room_users_list (roomUsers s' (roomId u))))"
    unfolding s'_def left_def step_disconnect_registered [OF conn lu] by simp
  have s': "s' = socket_close s c\<lparr>activeUsers := AList.delete c (activeUsers s)\<rparr>"
    unfolding s'_def step_disconnect_registered [OF conn lu] by simp
  have l: "lookup s' c = None"
    by (simp add: s' lookup_def delete_conv')
  have nc: "\<not> connected s' c"
    by (auto simp: s' connected_def socket_close_def)
  have io: "map fst (io_to_emit s' (roomId u) (Emit_room_users_list (roomUsers s' (roomId u))))
      = in_room s' (roomId u)"
    by (simp add: io_to_emit_def comp_def)
  have mem: "membersOf s' (roomId u) \<subseteq> set (in_room s' (roomId u))" if ok: "state_ok s"
  proof
    have ok': "state_ok s'" unfolding s' using ok by (rule state_ok_close_delete)
    fix x assume "x \<in> membersOf s' (roomId u)"
    then obtain v where "lookup s' x = Some v" "roomId v = roomId u"
      by (auto simp: membersOf_iff)
    with ok' show "x \<in> set (in_room s' (roomId u))"
      using state_ok_lookupD(2) by metis
  qed
  have sub: "fst ` set (socket_to_emit s' c (roomId u) left) \<subseteq> set (in_room s' (roomId u))"
    by (rule socket_to_emit_recipients)
  have all: "socket_to_emit s' c (roomId u) left = map (\<lambda>x. (x, left)) (in_room s' (roomId u))"
    if "set (in_room s' c) = {}"
    using that by (rule socket_to_emit_nobody)
  have m: "c \<notin> membersOf s' (roomId u)"
    using l by (simp add: membersOf_iff)
  have e: "\<forall>x f n. (x, Emit_call_ended f n) \<notin> set (snd (step s c now On_disconnect))"
    unfolding st by (auto simp: left_def socket_to_emit_def io_to_emit_def)
  have "lookup s' c = None \<and> \<not> connected s' c \<and>
     snd (step s c now On_disconnect)
       = socket_to_emit s' c (roomId u) left
         @ io_to_emit s' (roomId u) (Emit_room_users_list (roomUsers s' (roomId u))) \<and>
     map fst (io_to_emit s' (roomId u) (Emit_room_users_list (roomUsers s' (roomId u))))
       = in_room s' (roomId u) \<and>
     (state_ok s \<longrightarrow> membersOf s' (roomId u) \<subseteq> set (in_room s' (roomId u))) \<and>
     fst ` set (socket_to_emit s' c (roomId u) left) \<subseteq> set (in_room s' (roomId u)) \<and>
     (set (in_room s' c) = {} \<longrightarrow>
        socket_to_emit s' c (roomId u) left = map (\<lambda>x. (x, left)) (in_room s' (roomId u))) \<and>
     fst ` set (roomUsers s' (roomId u)) = membersOf s' (roomId u) \<and>
     c \<notin> membersOf s' (roomId u) \<and>
     (\<forall>x f n. (x, Emit_call_ended f n) \<notin> set (snd (step s c now On_disconnect)))"
    using l nc io mem sub all m e fst_roomUsers [of s' "roomId u"] by (simp add: st)
  then show ?thesis unfolding s'_def left_def .
qed

theorem disconnect_sends_room_events_only_witness:
  "connected demo ''A'' \<and> lookup demo ''A'' = Some \<lparr>username = ''alice'', roomId = ''R1''\<rparr> \<and>
   state_ok demo \<and>
   fst (step demo ''A'' ''10:01'' On_disconnect)
     = \<lparr>activeUsers = [(''B'', \<lparr>username = ''bob'', roomId = ''R1''\<rparr>),
                       (''D'', \<lparr>username = ''dave'', roomId = ''R2''\<rparr>)],
        sockets = [(''B'', [''R1'', ''B'']), (''C'', [''C'']), (''D'', [''R2'', ''D''])]\<rparr> \<and>
   snd (step demo ''A'' ''10:01'' On_disconnect)
     = [(''B'', Emit_user_left ''alice'' ''alice left the room''),
        (''B'', Emit_room_users_list [(''B'', ''bob'')])]"
proof -
  let ?s' = "\<lparr>activeUsers = [(''B'', \<lparr>username = ''bob'', roomId = ''R1''\<rparr>),
                       (''D'', \<lparr>username = ''dave'', roomId = ''R2''\<rparr>)],
        sockets = [(''B'', [''R1'', ''B'']), (''C'', [''C'']), (''D'', [''R2'', ''D''])]\<rparr>"
  have a: "connected demo ''A''"
    by (simp add: connected_def demo_def)
  have la: "lookup demo ''A'' = Some \<lparr>username = ''alice'', roomId = ''R1''\<rparr>"
    by (simp add: lookup_def demo_def)
  have s': "fst (step demo ''A'' ''10:01'' On_disconnect) = ?s'"
    using a by (simp add: step_connected disconnect_close_state) (simp add: demo_def socket_close_def)
  have ir: "in_room ?s' ''R1'' = [''B'']" and ia: "set (in_room ?s' ''A'') = {}"
    by (simp_all add: in_room_def)
  have ru: "roomUsers ?s' ''R1'' = [(''B'', ''bob'')]"
    by (simp add: roomUsers_def lookup_def)
  show ?thesis
    using a la s' ir ia ru state_ok_demo
      disconnect_sends_room_events_only [OF a la, of "''10:01''"]
    by (simp add: io_to_emit_def)
qed

section \<open>Membership lists\<close>

text \<open>
  A, a member of R1, asks for the users of its room: the list it is sent names B only, not A
  itself.
\<close>

theorem get_room_users_omits_asker:
  "lookup demo ''A'' = Some \<lparr>username = ''alice'', roomId = ''R1''\<rparr> \<and>
   ''A'' \<in> membersOf demo ''R1'' \<and>
   step demo ''A'' ''10:01'' On_get_room_users
     = (demo, [(''A'', Emit_room_users_list [(''B'', ''bob'')])])"
  by (simp add: demo_def membersOf_def handler_defs emit_defs eval_defs)

text \<open>
  Claim C2, as the code has it. The \<^verbatim>\<open>room-users-list\<close> sent on a successful join goes to every
  socket in the room, the joiner included, and names exactly the sockets whose entry, after
  the join, names that room, the joiner among them. The one sent on the disconnection of a
  socket with an entry names exactly the sockets whose entry, after the removal, names the
  room of the removed entry, so not the disconnected socket. The one sent in answer to
  \<^verbatim>\<open>get-room-users\<close> goes to the asking socket only and names the members of its room other
  than the asking socket itself.
\<close>

theorem membership_lists:
  "connected s c \<Longrightarrow>
   (uname \<noteq> [] \<and> rid \<noteq> [] \<longrightarrow>
      room_users_lists (snd (step s c now (On_join_room uname rid)))
        = map (\<lambda>x. (x, roomUsers (fst (step s c now (On_join_room uname rid))) rid))
              (in_room (fst (step s c now (On_join_room uname rid))) rid) \<and>
      c \<in> set (in_room (fst (step s c now (On_join_room uname rid))) rid) \<and>
      fst ` set (roomUsers (fst (step s c now (On_join_room uname rid))) rid)
        = membersOf (fst (step s c now (On_join_room uname rid))) rid \<and>
      c \<in> membersOf (fst (step s c now (On_join_room uname rid))) rid) \<and>
   (\<forall>u. lookup s c = Some u \<longrightarrow>
      room_users_lists (snd (step s c now On_disconnect))
        = map (\<lambda>x. (x, roomUsers (fst (step s c now On_disconnect)) (roomId u)))
              (in_room (fst (step s c now On_disconnect)) (roomId u)) \<and>
      fst ` set (roomUsers (fst (step s c now On_disconnect)) (roomId u))
        = membersOf (fst (step s c now On_disconnect)) (roomId u) \<and>
      c \<notin> membersOf (fst (step s c now On_disconnect)) (roomId u) \<and>
      room_users_lists (snd (step s c now On_get_room_users))
        = [(c, roomUsers_except s (roomId u) c)] \<and>
      fst (step s c now On_get_room_users) = s \<and>
      fst ` set (roomUsers_except s (roomId u) c) = membersOf s (roomId u) - {c} \<and>
      c \<in> membersOf s (roomId u))"
proof -
  assume conn: "connected s c"
  have j: "room_users_lists (snd (step s c now (On_join_room uname rid)))
        = map (\<lambda>x. (x, roomUsers (fst (step s c now (On_join_room uname rid))) rid))
              (in_room (fst (step s c now (On_join_room uname rid))) rid) \<and>
      c \<in> set (in_room (fst (step s c now (On_join_room uname rid))) rid) \<and>
      fst ` set (roomUsers (fst (step s c now (On_join_room uname rid))) rid)
        = membersOf (fst (step s c now (On_join_room uname rid))) rid \<and>
      c \<in> membersOf (fst (step s c now (On_join_room uname rid))) rid"
    if v: "uname \<noteq> []" "rid \<noteq> []"
  proof -
    define s' where "s' = socket_join (s\<lparr>activeUsers := AList.update c \<lparr>username = uname, roomId = rid\<rparr> (activeUsers s)\<rparr>) c rid"
    have st: "step s c now (On_join_room uname rid) =
       (s', (c, Emit_joined_room uname rid)
        # socket_to_emit s' c rid (Emit_user_joined uname (uname @ '' joined the room''))
        @ io_to_emit s' rid (Emit_room_users_list (roomUsers s' rid)))"
      unfolding s'_def by (rule step_join_valid [OF conn v])
    have "connected (s\<lparr>activeUsers := AList.update c \<lparr>username = uname, roomId = rid\<rparr> (activeUsers s)\<rparr>) c"
      using conn by (simp add: connected_def)
    then have ir: "c \<in> set (in_room s' rid)"
      by (simp add: s'_def mem_in_room_join)
    have "lookup s' c = Some \<lparr>username = uname, roomId = rid\<rparr>"
      by (simp add: s'_def socket_join_def lookup_def update_conv')
    then have m: "c \<in> membersOf s' rid"
      by (simp add: membersOf_iff)
    show ?thesis
      using ir m fst_roomUsers [of s' rid] by (simp add: st)
  qed
  have d: "room_users_lists (snd (step s c now On_disconnect))
        = map (\<lambda>x. (x, roomUsers (fst (step s c now On_disconnect)) (roomId u)))
              (in_room (fst (step s c now On_disconnect)) (roomId u)) \<and>
      fst ` set (roomUsers (fst (step s c now On_disconnect)) (roomId u))
        = membersOf (fst (step s c now On_disconnect)) (roomId u) \<and>
      c \<notin> membersOf (fst (step s c now On_disconnect)) (roomId u) \<and>
      room_users_lists (snd (step s c now On_get_room_users))
        = [(c, roomUsers_except s (roomId u) c)] \<and>
      fst (step s c now On_get_room_users) = s \<and>
      fst ` set (roomUsers_except s (roomId u) c) = membersOf s (roomId u) - {c} \<and>
      c \<in> membersOf s (roomId u)"
    if lu: "lookup s c = Some u" for u
  proof -
    have "lookup (socket_close s c\<lparr>activeUsers := AList.delete c (activeUsers s)\<rparr>) c = None"
      by (simp add: lookup_def delete_conv')
    then have m: "c \<notin> membersOf (socket_close s c\<lparr>activeUsers := AList.delete c (activeUsers s)\<rparr>) (roomId u)"
      by (simp add: membersOf_iff)
    have g: "step s c now On_get_room_users = (s, [(c, Emit_room_users_list (roomUsers_except s (roomId u) c))])"
      using conn lu by (simp add: step_connected get_room_users_def socket_emit_def)
    have mm: "c \<in> membersOf s (roomId u)"
      using lu by (simp add: membersOf_iff)
    show ?thesis
      using m mm
      by (simp add: step_disconnect_registered [OF conn lu] g fst_roomUsers fst_roomUsers_except)
  qed
  from j d show ?thesis by blast
qed

theorem membership_lists_witness:
  "connected demo ''C'' \<and> connected demo ''A'' \<and>
   lookup demo ''A'' = Some \<lparr>username = ''alice'', roomId = ''R1''\<rparr> \<and>
   room_users_lists (snd (step demo ''C'' ''10:01'' (On_join_room ''carol'' ''R1'')))
     = [(''A'', [(''A'', ''alice''), (''B'', ''bob''), (''C'', ''carol'')]),
        (''B'', [(''A'', ''alice''), (''B'', ''bob''), (''C'', ''carol'')]),
        (''C'', [(''A'', ''alice''), (''B'', ''bob''), (''C'', ''carol'')])] \<and>
   room_users_lists (snd (step demo ''A'' ''10:01'' On_disconnect)) = [(''B'', [(''B'', ''bob'')])] \<and>
   room_users_lists (snd (step demo ''A'' ''10:01'' On_get_room_users)) = [(''A'', [(''B'', ''bob'')])]"
proof -
  have c: "connected demo ''C''" and a: "connected demo ''A''"
    by (simp_all add: connected_def demo_def)
  have la: "lookup demo ''A'' = Some \<lparr>username = ''alice'', roomId = ''R1''\<rparr>"
    by (simp add: lookup_def demo_def)
  have sj: "fst (step demo ''C'' ''10:01'' (On_join_room ''carol'' ''R1''))
     = \<lparr>activeUsers = [(''A'', \<lparr>username = ''alice'', roomId = ''R1''\<rparr>),
                       (''B'', \<lparr>username = ''bob'', roomId = ''R1''\<rparr>),
                       (''D'', \<lparr>username = ''dave'', roomId = ''R2''\<rparr>),
                       (''C'', \<lparr>username = ''carol'', roomId = ''R1''\<rparr>)],
        sockets = [(''A'', [''R1'', ''A'']), (''B'', [''R1'', ''B'']), (''C'', [''R1'', ''C'']),
                   (''D'', [''R2'', ''D''])]\<rparr>"
    using c by (simp add: step_connected join_room_def Let_def) (simp add: demo_def socket_join_def)
  have sd: "fst (step demo ''A'' ''10:01'' On_disconnect)
     = \<lparr>activeUsers = [(''B'', \<lparr>username = ''bob'', roomId = ''R1''\<rparr>),
                       (''D'', \<lparr>username = ''dave'', roomId = ''R2''\<rparr>)],
        sockets = [(''B'', [''R1'', ''B'']), (''C'', [''C'']), (''D'', [''R2'', ''D''])]\<rparr>"
    using a by (simp add: step_connected disconnect_close_state) (simp add: demo_def socket_close_def)
  have ev: "in_room \<lparr>activeUsers = [(''A'', \<lparr>username = ''alice'', roomId = ''R1''\<rparr>),
                       (''B'', \<lparr>username = ''bob'', roomId = ''R1''\<rparr>),
                       (''D'', \<lparr>username = ''dave'', roomId = ''R2''\<rparr>),
                       (''C'', \<lparr>username = ''carol'', roomId = ''R1''\<rparr>)],
        sockets = [(''A'', [''R1'', ''A'']), (''B'', [''R1'', ''B'']), (''C'', [''R1'', ''C'']),
                   (''D'', [''R2'', ''D''])]\<rparr> ''R1'' = [''A'', ''B'', ''C'']"
    "roomUsers \<lparr>activeUsers = [(''A'', \<lparr>username = ''alice'', roomId = ''R1''\<rparr>),
                       (''B'', \<lparr>username = ''bob'', roomId = ''R1''\<rparr>),
                       (''D'', \<lparr>username = ''dave'', roomId = ''R2''\<rparr>),
                       (''C'', \<lparr>username = ''carol'', roomId = ''R1''\<rparr>)],
        sockets = [(''A'', [''R1'', ''A'']), (''B'', [''R1'', ''B'']), (''C'', [''R1'', ''C'']),
                   (''D'', [''R2'', ''D''])]\<rparr> ''R1'' = [(''A'', ''alice''), (''B'', ''bob''), (''C'', ''carol'')]"
    "in_room \<lparr>activeUsers = [(''B'', \<lparr>username = ''bob'', roomId = ''R1''\<rparr>),
                       (''D'', \<lparr>username = ''dave'', roomId = ''R2''\<rparr>)],
        sockets = [(''B'', [''R1'', ''B'']), (''C'', [''C'']), (''D'', [''R2'', ''D''])]\<rparr> ''R1'' = [''B'']"
    "roomUsers \<lparr>activeUsers = [(''B'', \<lparr>username = ''bob'', roomId = ''R1''\<rparr>),
                       (''D'', \<lparr>username = ''dave'', roomId = ''R2''\<rparr>)],
        sockets = [(''B'', [''R1'', ''B'']), (''C'', [''C'']), (''D'', [''R2'', ''D''])]\<rparr> ''R1'' = [(''B'', ''bob'')]"
    "roomUsers_except demo ''R1'' ''A'' = [(''B'', ''bob'')]"
    by (simp_all add: in_room_def roomUsers_def roomUsers_except_def lookup_def demo_def)
  show ?thesis
    using c a la sj sd ev
      membership_lists [OF c, of "''carol''" "''R1''" "''10:01''"]
      membership_lists [OF a, of "''alice''" "''R1''" "''10:01''"]
    by simp
qed

section \<open>Text messages\<close>

text \<open>
  Claim C3 fails on the code. After the run \<open>rejoin_trace\<close> the entry of B names R2, yet a
  message that A sends to R1 is delivered to B as well: \<^verbatim>\<open>join-room\<close> overwrites the entry and
  calls \<^verbatim>\<open>socket.join\<close> for the new room, and nothing takes the socket out of the old one.
\<close>

theorem rejoined_socket_hears_former_room:
  "fst (exec init rejoin_trace) = rejoined \<and>
   lookup rejoined ''B'' = Some \<lparr>username = ''bob'', roomId = ''R2''\<rparr> \<and>
   step rejoined ''A'' ''10:00:06'' (On_send_message ''hello'')
     = (rejoined, [(''A'', Emit_receive_message ''alice'' ''hello'' ''10:00:06''),
                   (''B'', Emit_receive_message ''alice'' ''hello'' ''10:00:06'')])"
  by (simp add: rejoined_reached)
     (simp add: rejoined_def handler_defs emit_defs eval_defs js_trim_def js_whitespace_def)

text \<open>A sends a text with blanks around it: the message broadcast carries the trimmed text.\<close>

theorem send_message_trims_text:
  "step demo ''A'' ''10:01'' (On_send_message ''  hi '')
     = (demo, [(''A'', Emit_receive_message ''alice'' ''hi'' ''10:01''),
               (''B'', Emit_receive_message ''alice'' ''hi'' ''10:01'')]) \<and>
   (''A'', Emit_receive_message ''alice'' ''  hi '' ''10:01'')
     \<notin> set (snd (step demo ''A'' ''10:01'' (On_send_message ''  hi '')))"
  by (simp add: demo_def handler_defs emit_defs eval_defs js_trim_def js_whitespace_def)

text \<open>
  Claim C5, as the code has it. \<^verbatim>\<open>send-message\<close> from a connected socket \<open>c\<close>: without an entry
  for \<open>c\<close>, the state is unchanged and \<open>c\<close> alone is sent \<^verbatim>\<open>error\<close>; with an entry and a text
  that trims to the empty string, the state is unchanged and nothing is sent; otherwise the
  state is unchanged and every socket in the Socket.IO room of the sender's entry is sent
  \<^verbatim>\<open>receive-message\<close> with the sender's name, the trimmed text and the server's clock
  reading; the sender and every member of the sender's room are among those sockets.
\<close>

theorem send_message_cases:
  "state_ok s \<Longrightarrow> connected s c \<Longrightarrow>
   (lookup s c = None \<longrightarrow>
      step s c now (On_send_message text) = (s, [(c, Emit_error ''You must join a room first!'')])) \<and>
   (lookup s c \<noteq> None \<and> js_trim text = [] \<longrightarrow>
      step s c now (On_send_message text) = (s, [])) \<and>
   (\<forall>u. lookup s c = Some u \<and> js_trim text \<noteq> [] \<longrightarrow>
      step s c now (On_send_message text)
        = (s, map (\<lambda>x. (x, Emit_receive_message (username u) (js_trim text) now))
                  (in_room s (roomId u))) \<and>
      c \<in> set (in_room s (roomId u)) \<and>
      membersOf s (roomId u) \<subseteq> set (in_room s (roomId u)))"
proof -
  assume ok: "state_ok s" and conn: "connected s c"
  have a: "lookup s c = None \<longrightarrow>
      step s c now (On_send_message text) = (s, [(c, Emit_error ''You must join a room first!'')])"
    using conn by (simp add: step_connected send_message_def socket_emit_def)
  have b: "lookup s c \<noteq> None \<and> js_trim text = [] \<longrightarrow>
      step s c now (On_send_message text) = (s, [])"
    using conn by (auto simp: step_connected send_message_def)
  have c: "step s c now (On_send_message text)
        = (s, map (\<lambda>x. (x, Emit_receive_message (username u) (js_trim text) now))
                  (in_room s (roomId u))) \<and>
      c \<in> set (in_room s (roomId u)) \<and>
      membersOf s (roomId u) \<subseteq> set (in_room s (roomId u))"
    if lu: "lookup s c = Some u" and t: "js_trim text \<noteq> []" for u
  proof -
    from t have "text \<noteq> []" by auto
    with conn lu t have "step s c now (On_send_message text)
        = (s, map (\<lambda>x. (x, Emit_receive_message (username u) (js_trim text) now))
                  (in_room s (roomId u)))"
      by (simp add: step_connected send_message_def io_to_emit_def)
    moreover have "c \<in> set (in_room s (roomId u))"
      using ok lu by (rule state_ok_lookupD(2))
    moreover have "membersOf s (roomId u) \<subseteq> set (in_room s (roomId u))"
    proof
      fix x assume "x \<in> membersOf s (roomId u)"
      then obtain v where "lookup s x = Some v" "roomId v = roomId u"
        by (auto simp: membersOf_iff)
      with ok show "x \<in> set (in_room s (roomId u))"
        using state_ok_lookupD(2) by metis
    qed
    ultimately show ?thesis by blast
  qed
  from a b c show ?thesis by blast
qed

theorem send_message_cases_witness:
  "state_ok demo \<and> connected demo ''A'' \<and> connected demo ''C'' \<and>
   lookup demo ''C'' = None \<and>
   lookup demo ''A'' = Some \<lparr>username = ''alice'', roomId = ''R1''\<rparr> \<and>
   step demo ''C'' ''10:01'' (On_send_message ''hello'')
     = (demo, [(''C'', Emit_error ''You must join a room first!'')]) \<and>
   step demo ''A'' ''10:01'' (On_send_message ''   '') = (demo, []) \<and>
   step demo ''A'' ''10:01'' (On_send_message '' hello '')
     = (demo, [(''A'', Emit_receive_message ''alice'' ''hello'' ''10:01''),
               (''B'', Emit_receive_message ''alice'' ''hello'' ''10:01'')])"
proof -
  have a: "connected demo ''A''" and c: "connected demo ''C''"
    by (simp_all add: connected_def demo_def)
  have lc: "lookup demo ''C'' = None"
    and la: "lookup demo ''A'' = Some \<lparr>username = ''alice'', roomId = ''R1''\<rparr>"
    by (simp_all add: lookup_def demo_def)
  have t1: "js_trim ''   '' = []" and t2: "js_trim '' hello '' = ''hello''" and t3: "js_trim ''hello'' = ''hello''"
    by (simp_all add: js_trim_def js_whitespace_def)
  have ir: "in_room demo ''R1'' = [''A'', ''B'']"
    by (simp add: in_room_def demo_def)
  show ?thesis
    using state_ok_demo a c lc la t1 t2 t3 ir
      send_message_cases [OF state_ok_demo c, of "''10:01''" "''hello''"]
      send_message_cases [OF state_ok_demo a, of "''10:01''" "''   ''"]
      send_message_cases [OF state_ok_demo a, of "''10:01''" "'' hello ''"]
    by simp
qed

section \<open>Call signalling\<close>

text \<open>
  Claim C6. A connected caller with an entry sends \<^verbatim>\<open>call-user\<close> naming a target that has no
  entry, or whose entry names another room: the state is unchanged and the only delivery is
  \<^verbatim>\<open>call-error\<close> to the caller, so nobody is sent \<^verbatim>\<open>incoming-call\<close>.
\<close>

theorem call_user_target_not_found:
  "connected s c \<Longrightarrow> lookup s c = Some caller \<Longrightarrow>
   lookup s t = None \<or> (\<exists>target. lookup s t = Some target \<and> roomId target \<noteq> roomId caller) \<Longrightarrow>
   step s c now (On_call_user t callType) = (s, [(c, Emit_call_error ''User not found in room'')])"
  by (auto simp: step_connected call_user_def socket_emit_def)

theorem call_user_target_not_found_witness:
  "connected demo ''A'' \<and>
   lookup demo ''A'' = Some \<lparr>username = ''alice'', roomId = ''R1''\<rparr> \<and>
   lookup demo ''C'' = None \<and>
   lookup demo ''D'' = Some \<lparr>username = ''dave'', roomId = ''R2''\<rparr> \<and>
   step demo ''A'' ''10:01'' (On_call_user ''C'' (JStr ''video''))
     = (demo, [(''A'', Emit_call_error ''User not found in room'')]) \<and>
   step demo ''A'' ''10:01'' (On_call_user ''D'' (JStr ''audio''))
     = (demo, [(''A'', Emit_call_error ''User not found in room'')])"
proof -
  have a: "connected demo ''A''"
    by (simp add: connected_def demo_def)
  have la: "lookup demo ''A'' = Some \<lparr>username = ''alice'', roomId = ''R1''\<rparr>"
    and lc: "lookup demo ''C'' = None"
    and ld: "lookup demo ''D'' = Some \<lparr>username = ''dave'', roomId = ''R2''\<rparr>"
    by (simp_all add: lookup_def demo_def)
  have tc: "lookup demo ''C'' = None \<or>
      (\<exists>target. lookup demo ''C'' = Some target \<and> roomId target \<noteq> roomId \<lparr>username = ''alice'', roomId = ''R1''\<rparr>)"
    using lc by simp
  have td: "lookup demo ''D'' = None \<or>
      (\<exists>target. lookup demo ''D'' = Some target \<and> roomId target \<noteq> roomId \<lparr>username = ''alice'', roomId = ''R1''\<rparr>)"
    using ld by simp
  show ?thesis
    using a la lc ld
      call_user_target_not_found [OF a la tc, of "''10:01''" "JStr ''video''"]
      call_user_target_not_found [OF a la td, of "''10:01''" "JStr ''audio''"]
    by simp
qed

text \<open>
  A sends an offer to C, which is connected but has no entry in \<^verbatim>\<open>activeUsers\<close>: C is sent
  the offer all the same.
\<close>

theorem relay_reaches_unregistered_target:
  "lookup demo ''C'' = None \<and>
   step demo ''A'' ''10:01'' (On_webrtc_offer ''C'' (JStr ''sdp''))
     = (demo, [(''C'', Emit_webrtc_offer ''A'' (JStr ''sdp''))])"
  by (simp add: demo_def handler_defs emit_defs eval_defs)

text \<open>
  Claim C7, as the code has it. An offer, answer or ICE candidate \<open>ev\<close> from a connected socket
  \<open>c\<close> naming \<open>t\<close>, with \<open>e\<close> the event of the same name carrying the id of \<open>c\<close> and the
  payload as it came: the state is unchanged; every delivery is \<open>e\<close> and goes to a socket in
  the Socket.IO room \<open>t\<close>; when no other socket is in the room named after the id of \<open>c\<close>,
  the deliveries are \<open>e\<close> to every socket in room \<open>t\<close> but \<open>c\<close>; and in a state the server can
  reach, a connected \<open>t\<close> that is not in the room named after the id of \<open>c\<close> is sent \<open>e\<close>.
  Nothing is checked: neither \<open>c\<close> nor \<open>t\<close> needs an entry in \<^verbatim>\<open>activeUsers\<close>.
\<close>

theorem relay_is_unchecked:
  "connected s c \<Longrightarrow>
   (ev, e) \<in> {(On_webrtc_offer t payload, Emit_webrtc_offer c payload),
              (On_webrtc_answer t payload, Emit_webrtc_answer c payload),
              (On_webrtc_ice_candidate t payload, Emit_webrtc_ice_candidate c payload)} \<Longrightarrow>
   fst (step s c now ev) = s \<and>
   snd ` set (snd (step s c now ev)) \<subseteq> {e} \<and>
   fst ` set (snd (step s c now ev)) \<subseteq> set (in_room s t) \<and>
   (set (in_room s c) = {c} \<longrightarrow>
      snd (step s c now ev) = map (\<lambda>x. (x, e)) (filter (\<lambda>x. x \<noteq> c) (in_room s t))) \<and>
   (state_ok s \<and> connected s t \<and> t \<notin> set (in_room s c) \<longrightarrow>
      (t, e) \<in> set (snd (step s c now ev)))"
proof -
  assume conn: "connected s c"
    and ev: "(ev, e) \<in> {(On_webrtc_offer t payload, Emit_webrtc_offer c payload),
              (On_webrtc_answer t payload, Emit_webrtc_answer c payload),
              (On_webrtc_ice_candidate t payload, Emit_webrtc_ice_candidate c payload)}"
  have st: "step s c now ev = (s, socket_to_emit s c t e)"
    using conn ev
    by (auto simp: step_connected webrtc_offer_def webrtc_answer_def webrtc_ice_candidate_def)
  have reach: "(t, e) \<in> set (socket_to_emit s c t e)"
    if "state_ok s" "connected s t" "t \<notin> set (in_room s c)"
    using that by (simp add: socket_to_emit_reaches connected_self_room)
  show ?thesis
    unfolding st
    using socket_to_emit_events [of s c t e] socket_to_emit_recipients [of s c t e]
      socket_to_emit_alone [of s c t e] reach
    by simp
qed

theorem relay_is_unchecked_witness:
  "connected demo ''C'' \<and> connected demo ''B'' \<and> state_ok demo \<and>
   lookup demo ''C'' = None \<and>
   set (in_room demo ''C'') = {''C''} \<and>
   step demo ''C'' ''10:01'' (On_webrtc_offer ''B'' (JObj [(''type'', JStr ''offer''), (''sdp'', JStr ''v=0'')]))
     = (demo, [(''B'', Emit_webrtc_offer ''C'' (JObj [(''type'', JStr ''offer''), (''sdp'', JStr ''v=0'')]))]) \<and>
   step demo ''C'' ''10:01'' (On_webrtc_answer ''B'' (JObj [(''type'', JStr ''answer''), (''sdp'', JStr ''v=0'')]))
     = (demo, [(''B'', Emit_webrtc_answer ''C'' (JObj [(''type'', JStr ''answer''), (''sdp'', JStr ''v=0'')]))]) \<and>
   step demo ''C'' ''10:01'' (On_webrtc_ice_candidate ''B'' (JObj [(''candidate'', JStr ''udp 1'')]))
     = (demo, [(''B'', Emit_webrtc_ice_candidate ''C'' (JObj [(''candidate'', JStr ''udp 1'')]))])"
proof -
  have c: "connected demo ''C''" and b: "connected demo ''B''"
    by (simp_all add: connected_def demo_def)
  have lc: "lookup demo ''C'' = None"
    by (simp add: lookup_def demo_def)
  have ic: "set (in_room demo ''C'') = {''C''}"
    and ir: "filter (\<lambda>x. x \<noteq> ''C'') (in_room demo ''B'') = [''B'']"
    by (simp_all add: in_room_def demo_def)
  have o: "step demo ''C'' ''10:01'' (On_webrtc_offer ''B'' (JObj [(''type'', JStr ''offer''), (''sdp'', JStr ''v=0'')]))
     = (demo, [(''B'', Emit_webrtc_offer ''C'' (JObj [(''type'', JStr ''offer''), (''sdp'', JStr ''v=0'')]))])"
    using ic ir
      relay_is_unchecked [OF c, of "On_webrtc_offer ''B'' (JObj [(''type'', JStr ''offer''), (''sdp'', JStr ''v=0'')])"
        "Emit_webrtc_offer ''C'' (JObj [(''type'', JStr ''offer''), (''sdp'', JStr ''v=0'')])" "''B''"
        "JObj [(''type'', JStr ''offer''), (''sdp'', JStr ''v=0'')]" "''10:01''"]
    by (simp add: prod_eq_iff)
  have a: "step demo ''C'' ''10:01'' (On_webrtc_answer ''B'' (JObj [(''type'', JStr ''answer''), (''sdp'', JStr ''v=0'')]))
     = (demo, [(''B'', Emit_webrtc_answer ''C'' (JObj [(''type'', JStr ''answer''), (''sdp'', JStr ''v=0'')]))])"
    using ic ir
      relay_is_unchecked [OF c, of "On_webrtc_answer ''B'' (JObj [(''type'', JStr ''answer''), (''sdp'', JStr ''v=0'')])"
        "Emit_webrtc_answer ''C'' (JObj [(''type'', JStr ''answer''), (''sdp'', JStr ''v=0'')])" "''B''"
        "JObj [(''type'', JStr ''answer''), (''sdp'', JStr ''v=0'')]" "''10:01''"]
    by (simp add: prod_eq_iff)
  have i: "step demo ''C'' ''10:01'' (On_webrtc_ice_candidate ''B'' (JObj [(''candidate'', JStr ''udp 1'')]))
     = (demo, [(''B'', Emit_webrtc_ice_candidate ''C'' (JObj [(''candidate'', JStr ''udp 1'')]))])"
    using ic ir
      relay_is_unchecked [OF c, of "On_webrtc_ice_candidate ''B'' (JObj [(''candidate'', JStr ''udp 1'')])"
        "Emit_webrtc_ice_candidate ''C'' (JObj [(''candidate'', JStr ''udp 1'')])" "''B''"
        "JObj [(''candidate'', JStr ''udp 1'')]" "''10:01''"]
    by (simp add: prod_eq_iff)
  show ?thesis
    using c b lc ic state_ok_demo o a i by simp
qed

text \<open>
  C is connected and has no entry. Its \<^verbatim>\<open>get-room-users\<close> is dropped with no error sent, and
  its offer to A is delivered.
\<close>

theorem unregistered_get_room_users_is_silent:
  "connected demo ''C'' \<and> lookup demo ''C'' = None \<and>
   step demo ''C'' ''10:01'' On_get_room_users = (demo, []) \<and>
   step demo ''C'' ''10:01'' (On_webrtc_offer ''A'' (JStr ''sdp''))
     = (demo, [(''A'', Emit_webrtc_offer ''C'' (JStr ''sdp''))])"
  by (simp add: demo_def handler_defs emit_defs eval_defs)

text \<open>
  Claim C8, as the code has it. For a connected socket \<open>c\<close> without an entry in \<^verbatim>\<open>activeUsers\<close>:
  \<^verbatim>\<open>send-message\<close> and \<^verbatim>\<open>send-image\<close> leave the state unchanged and send \<^verbatim>\<open>error\<close> to the
  sender alone; \<^verbatim>\<open>get-room-users\<close>, \<^verbatim>\<open>call-user\<close>, \<^verbatim>\<open>accept-call\<close>, \<^verbatim>\<open>reject-call\<close> and
  \<^verbatim>\<open>end-call\<close> leave the state unchanged and send nothing, not even an error; the offer,
  answer and ICE candidate relays leave the state unchanged and are not dropped: in a state
  the server can reach, a connected target that is not in the room named after the id of \<open>c\<close>
  is sent the relayed event.
\<close>

theorem unregistered_actions:
  "connected s c \<Longrightarrow> lookup s c = None \<Longrightarrow>
   step s c now (On_send_message message) = (s, [(c, Emit_error ''You must join a room first!'')]) \<and>
   step s c now (On_send_image imageUrl) = (s, [(c, Emit_error ''You must join a room first!'')]) \<and>
   step s c now On_get_room_users = (s, []) \<and>
   step s c now (On_call_user t callType) = (s, []) \<and>
   step s c now (On_accept_call t) = (s, []) \<and>
   step s c now (On_reject_call t) = (s, []) \<and>
   step s c now (On_end_call t) = (s, []) \<and>
   fst (step s c now (On_webrtc_offer t payload)) = s \<and>
   fst (step s c now (On_webrtc_answer t payload)) = s \<and>
   fst (step s c now (On_webrtc_ice_candidate t payload)) = s \<and>
   (state_ok s \<and> connected s t \<and> t \<notin> set (in_room s c) \<longrightarrow>
      (t, Emit_webrtc_offer c payload) \<in> set (snd (step s c now (On_webrtc_offer t payload))) \<and>
      (t, Emit_webrtc_answer c payload) \<in> set (snd (step s c now (On_webrtc_answer t payload))) \<and>
      (t, Emit_webrtc_ice_candidate c payload)
        \<in> set (snd (step s c now (On_webrtc_ice_candidate t payload))))"
proof -
  assume conn: "connected s c" and lc: "lookup s c = None"
  have drop: "step s c now (On_send_message message) = (s, [(c, Emit_error ''You must join a room first!'')]) \<and>
   step s c now (On_send_image imageUrl) = (s, [(c, Emit_error ''You must join a room first!'')]) \<and>
   step s c now On_get_room_users = (s, []) \<and>
   step s c now (On_call_user t callType) = (s, []) \<and>
   step s c now (On_accept_call t) = (s, []) \<and>
   step s c now (On_reject_call t) = (s, []) \<and>
   step s c now (On_end_call t) = (s, [])"
    using conn lc by (simp add: step_connected handler_defs socket_emit_def)
  have relay: "step s c now (On_webrtc_offer t payload) = (s, socket_to_emit s c t (Emit_webrtc_offer c payload))"
    "step s c now (On_webrtc_answer t payload) = (s, socket_to_emit s c t (Emit_webrtc_answer c payload))"
    "step s c now (On_webrtc_ice_candidate t payload)
       = (s, socket_to_emit s c t (Emit_webrtc_ice_candidate c payload))"
    using conn by (simp_all add: step_connected webrtc_offer_def webrtc_answer_def webrtc_ice_candidate_def)
  have reach: "(t, e) \<in> set (socket_to_emit s c t e)"
    if "state_ok s" "connected s t" "t \<notin> set (in_room s c)" for e
    using that by (simp add: socket_to_emit_reaches connected_self_room)
  show ?thesis
    using drop reach by (simp add: relay)
qed

theorem unregistered_actions_witness:
  "connected demo ''C'' \<and> lookup demo ''C'' = None \<and> state_ok demo \<and> connected demo ''A'' \<and>
   ''A'' \<notin> set (in_room demo ''C'') \<and>
   step demo ''C'' ''10:01'' (On_send_message ''hello'') = (demo, [(''C'', Emit_error ''You must join a room first!'')]) \<and>
   step demo ''C'' ''10:01'' (On_send_image ''/uploads/1.png'') = (demo, [(''C'', Emit_error ''You must join a room first!'')]) \<and>
   step demo ''C'' ''10:01'' On_get_room_users = (demo, []) \<and>
   step demo ''C'' ''10:01'' (On_call_user ''A'' (JStr ''video'')) = (demo, []) \<and>
   step demo ''C'' ''10:01'' (On_end_call ''A'') = (demo, []) \<and>
   fst (step demo ''C'' ''10:01'' (On_webrtc_answer ''A'' (JStr ''sdp''))) = demo \<and>
   (''A'', Emit_webrtc_answer ''C'' (JStr ''sdp''))
     \<in> set (snd (step demo ''C'' ''10:01'' (On_webrtc_answer ''A'' (JStr ''sdp''))))"
proof -
  have c: "connected demo ''C''" and a: "connected demo ''A''"
    by (simp_all add: connected_def demo_def)
  have lc: "lookup demo ''C'' = None"
    by (simp add: lookup_def demo_def)
  have ir: "''A'' \<notin> set (in_room demo ''C'')"
    by (simp add: in_room_def demo_def)
  show ?thesis
    using c a lc ir state_ok_demo
      unregistered_actions [OF c lc, of "''10:01''" "''hello''" "''/uploads/1.png''" "''A''" "JStr ''video''" "JStr ''sdp''"]
    by simp
qed

text \<open>
  Claim C9 fails on the code. After the run \<open>collide_trace\<close> B and C both have an entry in
  \<^verbatim>\<open>activeUsers\<close>, and C is in the room named after the id of B. \<^verbatim>\<open>accept-call\<close> and
  \<^verbatim>\<open>reject-call\<close> from B naming C pass the test of lines 233 and 252 and emit with
  \<^verbatim>\<open>socket.to\<close>, which leaves out every socket in the room named after the sender's id: C is
  sent nothing, where the handlers mean to notify it. With the two the other way round, B is
  notified.
\<close>

theorem accept_call_lost_in_room_named_after_sender:
  "fst (exec init collide_trace) = collide \<and>
   lookup collide ''B'' = Some \<lparr>username = ''bob'', roomId = ''R1''\<rparr> \<and>
   lookup collide ''C'' = Some \<lparr>username = ''carol'', roomId = ''B''\<rparr> \<and>
   step collide ''B'' ''10:00:05'' (On_accept_call ''C'') = (collide, []) \<and>
   step collide ''B'' ''10:00:05'' (On_reject_call ''C'') = (collide, []) \<and>
   step collide ''C'' ''10:00:05'' (On_accept_call ''B'')
     = (collide, [(''B'', Emit_call_accepted ''C'' ''carol'')])"
  by code_simp

section \<open>Frame\<close>

text \<open>
  Claim C10. An event of socket \<open>c\<close> leaves the entry of every other socket as it was, and an
  event other than \<^verbatim>\<open>join-room\<close> and \<^verbatim>\<open>disconnect\<close> leaves the whole of \<^verbatim>\<open>activeUsers\<close> as it
  was.
\<close>

theorem handlers_touch_own_entry_only:
  "(c' \<noteq> c \<longrightarrow> lookup (fst (step s c now ev)) c' = lookup s c') \<and>
   ((\<forall>uname rid. ev \<noteq> On_join_room uname rid) \<and> ev \<noteq> On_disconnect \<longrightarrow>
      activeUsers (fst (step s c now ev)) = activeUsers s)"
proof -
  have st: "fst (step s c now ev) =
     (if connected s c then
        (case ev of
           On_join_room uname rid \<Rightarrow>
             if uname = [] \<or> rid = [] then s
             else socket_join (s\<lparr>activeUsers := AList.update c \<lparr>username = uname, roomId = rid\<rparr> (activeUsers s)\<rparr>) c rid
         | On_disconnect \<Rightarrow> socket_close s c\<lparr>activeUsers := AList.delete c (activeUsers s)\<rparr>
         | _ \<Rightarrow> s)
      else if ev = On_connection then socket_open s c else s)"
    by (simp add: step_def dispatch_state)
  show ?thesis
    unfolding st
    by (cases ev)
       (simp_all add: lookup_def socket_join_def socket_close_def socket_open_def
          update_conv' delete_conv')
qed

theorem handlers_touch_own_entry_only_witness:
  "lookup (fst (step demo ''A'' ''10:01'' (On_join_room ''alice'' ''R2''))) ''B'' = lookup demo ''B'' \<and>
   lookup (fst (step demo ''A'' ''10:01'' On_disconnect)) ''B'' = lookup demo ''B'' \<and>
   activeUsers (fst (step demo ''A'' ''10:01'' (On_call_user ''B'' (JStr ''video'')))) = activeUsers demo"
  using handlers_touch_own_entry_only [of "''B''" "''A''" demo "''10:01''" "On_join_room ''alice'' ''R2''"]
    handlers_touch_own_entry_only [of "''B''" "''A''" demo "''10:01''" "On_disconnect"]
    handlers_touch_own_entry_only [of "''B''" "''A''" demo "''10:01''" "On_call_user ''B'' (JStr ''video'')"]
  by simp

end
